theory Spec2Isabelle
  imports Main
begin

section \<open>The confirmation e-mail client (mail_service/email_client.py)\<close>

text \<open>
  The module is a thin client: it opens an insecure gRPC channel, builds one request,
  invokes one remote method and logs the outcome. Everything it does is an effect on
  the outside world, so the model passes an explicit \<open>world\<close> through every
  statement: the channels opened so far, the remote calls issued so far and the log
  records emitted so far. The answer of the remote service is a parameter of the model.
\<close>

subsection \<open>Python values\<close>

text \<open>
  The function is untyped, so its two arguments range over Python objects:
  \<open>None\<close>, booleans, integers, strings, tuples, lists and dicts (a dict as an
  association list, in insertion order). A character of a string stands for a code point
  below 256.
\<close>

datatype pyval =
    PyNone
  | PyBool bool
  | PyInt int
  | PyStr string
  | PyTuple "pyval list"
  | PyList "pyval list"
  | PyDict "(pyval \<times> pyval) list"

subsection \<open>The collaborators: grpc, the generated stub, the logger\<close>

text \<open>
  \<open>grpc.StatusCode\<close>, the enumeration of the grpc library that \<open>err.code()\<close>
  returns. The handler reads two attributes of a member: \<open>.name\<close>, the member's
  name, and \<open>.value\<close>, the value the library binds to it. The library declares each
  member with a pair as its value, a number and a lower-case text:
  \<^verbatim>\<open>
  class StatusCode(enum.Enum):
      OK = (0, "ok")
      CANCELLED = (1, "cancelled")
      ...
      UNAVAILABLE = (14, "unavailable")
      DATA_LOSS = (15, "data loss")
      UNAUTHENTICATED = (16, "unauthenticated")
  \<close>
\<close>

datatype StatusCode =
    OK
  | CANCELLED
  | UNKNOWN
  | INVALID_ARGUMENT
  | DEADLINE_EXCEEDED
  | NOT_FOUND
  | ALREADY_EXISTS
  | PERMISSION_DENIED
  | RESOURCE_EXHAUSTED
  | FAILED_PRECONDITION
  | ABORTED
  | OUT_OF_RANGE
  | UNIMPLEMENTED
  | INTERNAL
  | UNAVAILABLE
  | DATA_LOSS
  | UNAUTHENTICATED

fun code_name :: "StatusCode \<Rightarrow> string" where
  "code_name OK = ''OK''"
| "code_name CANCELLED = ''CANCELLED''"
| "code_name UNKNOWN = ''UNKNOWN''"
| "code_name INVALID_ARGUMENT = ''INVALID_ARGUMENT''"
| "code_name DEADLINE_EXCEEDED = ''DEADLINE_EXCEEDED''"
| "code_name NOT_FOUND = ''NOT_FOUND''"
| "code_name ALREADY_EXISTS = ''ALREADY_EXISTS''"
| "code_name PERMISSION_DENIED = ''PERMISSION_DENIED''"
| "code_name RESOURCE_EXHAUSTED = ''RESOURCE_EXHAUSTED''"
| "code_name FAILED_PRECONDITION = ''FAILED_PRECONDITION''"
| "code_name ABORTED = ''ABORTED''"
| "code_name OUT_OF_RANGE = ''OUT_OF_RANGE''"
| "code_name UNIMPLEMENTED = ''UNIMPLEMENTED''"
| "code_name INTERNAL = ''INTERNAL''"
| "code_name UNAVAILABLE = ''UNAVAILABLE''"
| "code_name DATA_LOSS = ''DATA_LOSS''"
| "code_name UNAUTHENTICATED = ''UNAUTHENTICATED''"

fun code_value :: "StatusCode \<Rightarrow> pyval" where
  "code_value OK = PyTuple [PyInt 0, PyStr ''ok'']"
| "code_value CANCELLED = PyTuple [PyInt 1, PyStr ''cancelled'']"
| "code_value UNKNOWN = PyTuple [PyInt 2, PyStr ''unknown'']"
| "code_value INVALID_ARGUMENT = PyTuple [PyInt 3, PyStr ''invalid argument'']"
| "code_value DEADLINE_EXCEEDED = PyTuple [PyInt 4, PyStr ''deadline exceeded'']"
| "code_value NOT_FOUND = PyTuple [PyInt 5, PyStr ''not found'']"
| "code_value ALREADY_EXISTS = PyTuple [PyInt 6, PyStr ''already exists'']"
| "code_value PERMISSION_DENIED = PyTuple [PyInt 7, PyStr ''permission denied'']"
| "code_value RESOURCE_EXHAUSTED = PyTuple [PyInt 8, PyStr ''resource exhausted'']"
| "code_value FAILED_PRECONDITION = PyTuple [PyInt 9, PyStr ''failed precondition'']"
| "code_value ABORTED = PyTuple [PyInt 10, PyStr ''aborted'']"
| "code_value OUT_OF_RANGE = PyTuple [PyInt 11, PyStr ''out of range'']"
| "code_value UNIMPLEMENTED = PyTuple [PyInt 12, PyStr ''unimplemented'']"
| "code_value INTERNAL = PyTuple [PyInt 13, PyStr ''internal'']"
| "code_value UNAVAILABLE = PyTuple [PyInt 14, PyStr ''unavailable'']"
| "code_value DATA_LOSS = PyTuple [PyInt 15, PyStr ''data loss'']"
| "code_value UNAUTHENTICATED = PyTuple [PyInt 16, PyStr ''unauthenticated'']"

text \<open>What the handler reads from a caught error: \<open>err.details()\<close> and \<open>err.code()\<close>.\<close>

record rpc_error =
  details :: string
  code :: StatusCode

text \<open>
  Exceptions. The \<open>except\<close> clause of the function names \<open>grpc.RpcError\<close> only, so
  every other exception class is kept apart: it is not caught.
\<close>

datatype exn =
    RpcError rpc_error
  | OtherException string

text \<open>The outcome of the blocking remote call: a response object, or a raised exception.\<close>

datatype rpc_outcome =
    Response pyval
  | Raise exn

text \<open>
  Modelled from the spec: the generated message class
  \<open>demo_pb2.SendOrderConfirmationRequest\<close> is not part of the sources. The spec
  describes it as a structure with two fields, \<open>email\<close> and \<open>order\<close>, built fresh
  for each call from the two inputs, with no local validation.
\<close>

record SendOrderConfirmationRequest =
  email :: pyval
  order :: pyval

record channel =
  target :: string
  secure :: bool
  closed :: bool

record EmailServiceStub =
  stub_channel :: nat

record rpc_call =
  via :: nat
  rpc_method :: string
  request :: SendOrderConfirmationRequest

datatype log_level = INFO | ERROR

record log_record =
  logger_name :: string
  level :: log_level
  message :: string

record world =
  channels :: "channel list"
  rpcs :: "rpc_call list"
  logs :: "log_record list"

text \<open>
  \<open>grpc.insecure_channel(target)\<close>: a new channel object, open and without
  credentials. The handle it returns is the channel's position in the list of
  channels ever opened.
\<close>

definition insecure_channel :: "string \<Rightarrow> world \<Rightarrow> nat \<times> world" where
  "insecure_channel tgt w =
     (length (channels w),
      w\<lparr>channels := channels w @ [\<lparr>target = tgt, secure = False, closed = False\<rparr>]\<rparr>)"

text \<open>
  \<open>channel.close()\<close>, the operation of grpc that releases a channel. The function
  under study never calls it.
\<close>

definition channel_close :: "nat \<Rightarrow> world \<Rightarrow> world" where
  "channel_close c w =
     (if c < length (channels w)
      then w\<lparr>channels := (channels w)[c := (channels w ! c)\<lparr>closed := True\<rparr>]\<rparr>
      else w)"

text \<open>\<open>demo_pb2_grpc.EmailServiceStub(channel)\<close>: the stub keeps the channel it is given.\<close>

definition mk_EmailServiceStub :: "nat \<Rightarrow> EmailServiceStub" where
  "mk_EmailServiceStub c = \<lparr>stub_channel = c\<rparr>"

text \<open>
  \<open>stub.SendOrderConfirmation(request)\<close>: one call on the stub's channel, recorded
  in the world; the remote service \<open>remote\<close> decides the outcome from the request
  it receives.
\<close>

definition SendOrderConfirmation ::
  "(SendOrderConfirmationRequest \<Rightarrow> rpc_outcome) \<Rightarrow> EmailServiceStub \<Rightarrow>
   SendOrderConfirmationRequest \<Rightarrow> world \<Rightarrow> rpc_outcome \<times> world" where
  "SendOrderConfirmation remote stub req w =
     (remote req,
      w\<lparr>rpcs := rpcs w @
         [\<lparr>via = stub_channel stub, rpc_method = ''SendOrderConfirmation'', request = req\<rparr>]\<rparr>)"

text \<open>
  Modelled from the spec: the helper \<open>log.getJSONLogger\<close> is not part of the
  sources. The spec describes a structured logger named by a component identifier, whose
  \<open>info\<close> and \<open>error\<close> methods each emit one record of that level.
\<close>

definition getJSONLogger :: "string \<Rightarrow> string" where
  "getJSONLogger nm = nm"

definition logger :: string where
  "logger = getJSONLogger ''emailservice-client''"

definition logger_info :: "string \<Rightarrow> world \<Rightarrow> world" where
  "logger_info msg w =
     w\<lparr>logs := logs w @ [\<lparr>logger_name = logger, level = INFO, message = msg\<rparr>]\<rparr>"

definition logger_error :: "string \<Rightarrow> world \<Rightarrow> world" where
  "logger_error msg w =
     w\<lparr>logs := logs w @ [\<lparr>logger_name = logger, level = ERROR, message = msg\<rparr>]\<rparr>"

subsection \<open>String formatting\<close>

text \<open>\<open>str\<close> of a Python integer: decimal digits, with a minus sign when negative.\<close>

definition digit_char :: "nat \<Rightarrow> char" where
  "digit_char d = ''0123456789'' ! d"

function str_nat :: "nat \<Rightarrow> string" where
  "str_nat n = (if n < 10 then [digit_char n] else str_nat (n div 10) @ [digit_char (n mod 10)])"
  by pat_completeness auto
termination
  by (relation "measure (\<lambda>n. n)") auto

declare str_nat.simps [simp del]

definition str_int :: "int \<Rightarrow> string" where
  "str_int i = (if i < 0 then CHR ''-'' # str_nat (nat (- i)) else str_nat (nat i))"

text \<open>
  \<open>repr\<close> of a string: between single quotes, or between double quotes when the
  string holds a single quote and no double quote; the quote in use and the backslash
  are escaped, tab, newline and carriage return are written \<open>\t\<close>, \<open>\n\<close>, \<open>\r\<close>, and
  every other code point that is not printable is written \<open>\xhh\<close>.
\<close>

definition hex_char :: "nat \<Rightarrow> char" where
  "hex_char d = ''0123456789abcdef'' ! d"

definition printable :: "char \<Rightarrow> bool" where
  "printable c =
     (let n = (of_char c :: nat)
      in if n < 32 then False
         else if n < 127 then True
         else if n < 161 then False
         else if n = 173 then False
         else True)"

definition repr_char :: "char \<Rightarrow> char \<Rightarrow> string" where
  "repr_char q c =
     (if c = q \<or> c = CHR 0x5C then [CHR 0x5C, c]
      else if c = CHR 0x09 then [CHR 0x5C, CHR ''t'']
      else if c = CHR 0x0A then [CHR 0x5C, CHR ''n'']
      else if c = CHR 0x0D then [CHR 0x5C, CHR ''r'']
      else if printable c then [c]
      else [CHR 0x5C, CHR ''x'', hex_char ((of_char c :: nat) div 16),
            hex_char ((of_char c :: nat) mod 16)])"

definition repr_str :: "string \<Rightarrow> string" where
  "repr_str s =
     (let q = (if CHR 0x22 \<in> set s then CHR 0x27
               else if CHR 0x27 \<in> set s then CHR 0x22
               else CHR 0x27)
      in q # concat (map (repr_char q) s) @ [q])"

text \<open>\<open>', '.join(parts)\<close>.\<close>

fun join_comma :: "string list \<Rightarrow> string" where
  "join_comma [] = []"
| "join_comma [x] = x"
| "join_comma (x # y # zs) = x @ '', '' @ join_comma (y # zs)"

text \<open>
  \<open>repr\<close> of a Python object: a tuple of one element ends in a comma, the elements
  of a container are written with \<open>repr\<close>.
\<close>

primrec py_repr :: "pyval \<Rightarrow> string" where
  "py_repr PyNone = ''None''"
| "py_repr (PyBool b) = (if b then ''True'' else ''False'')"
| "py_repr (PyInt i) = str_int i"
| "py_repr (PyStr s) = repr_str s"
| "py_repr (PyTuple xs) =
     (case map py_repr xs of
        [] \<Rightarrow> ''()''
      | [r] \<Rightarrow> ''('' @ r @ '',)''
      | r # rs \<Rightarrow> ''('' @ join_comma (r # rs) @ '')'')"
| "py_repr (PyList xs) = ''['' @ join_comma (map py_repr xs) @ '']''"
| "py_repr (PyDict kvs) =
     ''{'' @ join_comma (map (\<lambda>kv. fst kv @ '': '' @ snd kv)
                          (map (map_prod py_repr py_repr) kvs)) @ ''}''"

text \<open>\<open>str\<close> of a Python object: a string is itself, anything else is its \<open>repr\<close>.\<close>

definition py_str :: "pyval \<Rightarrow> string" where
  "py_str v = (case v of PyStr s \<Rightarrow> s | _ \<Rightarrow> py_repr v)"

text \<open>
  \<open>'{}, {}'.format(a, b)\<close>: each field is replaced by \<open>str\<close> of its argument,
  whatever the argument is.
\<close>

definition format_code :: "pyval \<Rightarrow> pyval \<Rightarrow> string" where
  "format_code a b = py_str a @ '', '' @ py_str b"

text \<open>Python's \<open>needle in haystack\<close> on strings.\<close>

fun starts_with :: "string \<Rightarrow> string \<Rightarrow> bool" where
  "starts_with hay [] = True"
| "starts_with [] (n # ns) = False"
| "starts_with (h # hs) (n # ns) = (h = n \<and> starts_with hs ns)"

fun str_contains :: "string \<Rightarrow> string \<Rightarrow> bool" where
  "str_contains [] needle = (needle = [])"
| "str_contains (h # hs) needle = (starts_with (h # hs) needle \<or> str_contains hs needle)"

subsection \<open>The function\<close>

text \<open>
  \<^verbatim>\<open>
  def send_confirmation_email(email, order):
    channel = grpc.insecure_channel('[::]:8080')
    stub = demo_pb2_grpc.EmailServiceStub(channel)
    try:
      response = stub.SendOrderConfirmation(demo_pb2.SendOrderConfirmationRequest(
        email = email,
        order = order
      ))
      logger.info('Request sent.')
    except grpc.RpcError as err:
      logger.error(err.details())
      logger.error('{}, {}'.format(err.code().name, err.code().value))
  \<close>
  The result is \<open>Inr ()\<close> when the function returns (\<open>None\<close>) and \<open>Inl e\<close> when
  the exception \<open>e\<close> leaves it.
\<close>

definition send_confirmation_email ::
  "(SendOrderConfirmationRequest \<Rightarrow> rpc_outcome) \<Rightarrow> pyval \<Rightarrow> pyval \<Rightarrow> world \<Rightarrow>
   (exn + unit) \<times> world" where
  "send_confirmation_email remote email_arg order_arg w =
     (let (ch, w1) = insecure_channel ''[::]:8080'' w;
          stub = mk_EmailServiceStub ch;
          (outcome, w2) =
            SendOrderConfirmation remote stub \<lparr>email = email_arg, order = order_arg\<rparr> w1
      in case outcome of
           Response response \<Rightarrow> (Inr (), logger_info ''Request sent.'' w2)
         | Raise (RpcError err) \<Rightarrow>
             (Inr (),
              logger_error
                (format_code (PyStr (code_name (code err))) (code_value (code err)))
                (logger_error (details err) w2))
         | Raise (OtherException x) \<Rightarrow> (Inl (OtherException x), w2))"

text \<open>
  \<^verbatim>\<open>
  if __name__ == '__main__':
    logger.info('Client for email service.')
  \<close>
  The module's top-level statement, with the value of \<open>__name__\<close> and the command
  line as parameters.
\<close>

definition module_main :: "string \<Rightarrow> string list \<Rightarrow> world \<Rightarrow> (exn + unit) \<times> world" where
  "module_main dunder_name argv w =
     (if dunder_name = ''__main__''
      then (Inr (), logger_info ''Client for email service.'' w)
      else (Inr (), w))"

subsection \<open>What one invocation adds to the world\<close>

text \<open>
  The records a call appends to the log, and the requests it sends, read off the world
  before (\<open>w\<close>) and after (\<open>w'\<close>) the call.
\<close>

definition emitted_logs :: "world \<Rightarrow> world \<Rightarrow> log_record list" where
  "emitted_logs w w' = drop (length (logs w)) (logs w')"

definition sent_requests :: "world \<Rightarrow> world \<Rightarrow> SendOrderConfirmationRequest list" where
  "sent_requests w w' = map request (drop (length (rpcs w)) (rpcs w'))"

text \<open>A remote service that is down: every call fails with \<open>UNAVAILABLE\<close>.\<close>

definition remote_unavailable :: "SendOrderConfirmationRequest \<Rightarrow> rpc_outcome" where
  "remote_unavailable req = Raise (RpcError \<lparr>details = ''unavailable'', code = UNAVAILABLE\<rparr>)"

section \<open>The three paths of the function\<close>

lemma send_Response:
  "remote \<lparr>email = em, order = od\<rparr> = Response r \<Longrightarrow>
   send_confirmation_email remote em od w =
     (Inr (),
      w\<lparr>channels := channels w @ [\<lparr>target = ''[::]:8080'', secure = False, closed = False\<rparr>],
        rpcs := rpcs w @ [\<lparr>via = length (channels w), rpc_method = ''SendOrderConfirmation'',
                           request = \<lparr>email = em, order = od\<rparr>\<rparr>],
        logs := logs w @ [\<lparr>logger_name = ''emailservice-client'', level = INFO,
                           message = ''Request sent.''\<rparr>]\<rparr>)"
  by (simp add: send_confirmation_email_def insecure_channel_def mk_EmailServiceStub_def
      SendOrderConfirmation_def logger_info_def logger_def getJSONLogger_def)

lemma send_RpcError:
  "remote \<lparr>email = em, order = od\<rparr> = Raise (RpcError err) \<Longrightarrow>
   send_confirmation_email remote em od w =
     (Inr (),
      w\<lparr>channels := channels w @ [\<lparr>target = ''[::]:8080'', secure = False, closed = False\<rparr>],
        rpcs := rpcs w @ [\<lparr>via = length (channels w), rpc_method = ''SendOrderConfirmation'',
                           request = \<lparr>email = em, order = od\<rparr>\<rparr>],
        logs := logs w @
          [\<lparr>logger_name = ''emailservice-client'', level = ERROR, message = details err\<rparr>,
           \<lparr>logger_name = ''emailservice-client'', level = ERROR,
            message = format_code (PyStr (code_name (code err))) (code_value (code err))\<rparr>]\<rparr>)"
  by (simp add: send_confirmation_email_def insecure_channel_def mk_EmailServiceStub_def
      SendOrderConfirmation_def logger_error_def logger_def getJSONLogger_def)

lemma send_OtherException:
  "remote \<lparr>email = em, order = od\<rparr> = Raise (OtherException x) \<Longrightarrow>
   send_confirmation_email remote em od w =
     (Inl (OtherException x),
      w\<lparr>channels := channels w @ [\<lparr>target = ''[::]:8080'', secure = False, closed = False\<rparr>],
        rpcs := rpcs w @ [\<lparr>via = length (channels w), rpc_method = ''SendOrderConfirmation'',
                           request = \<lparr>email = em, order = od\<rparr>\<rparr>]\<rparr>)"
  by (simp add: send_confirmation_email_def insecure_channel_def mk_EmailServiceStub_def
      SendOrderConfirmation_def)

lemma outcome_cases:
  obtains (ok) r where "out = Response r"
  | (rpc) err where "out = Raise (RpcError err)"
  | (other) x where "out = Raise (OtherException x)"
proof (cases out)
  case (Response r)
  then show ?thesis by (rule ok)
next
  case (Raise x)
  then show ?thesis by (cases x) (auto intro: rpc other)
qed

text \<open>Each component of the world after the call, whatever the remote service answers.\<close>

lemma rpcs_send:
  "rpcs (snd (send_confirmation_email remote em od w)) =
     rpcs w @ [\<lparr>via = length (channels w), rpc_method = ''SendOrderConfirmation'',
                request = \<lparr>email = em, order = od\<rparr>\<rparr>]"
  by (cases "remote \<lparr>email = em, order = od\<rparr>" rule: outcome_cases)
     (simp_all add: send_Response send_RpcError send_OtherException)

lemma channels_send:
  "channels (snd (send_confirmation_email remote em od w)) =
     channels w @ [\<lparr>target = ''[::]:8080'', secure = False, closed = False\<rparr>]"
  by (cases "remote \<lparr>email = em, order = od\<rparr>" rule: outcome_cases)
     (simp_all add: send_Response send_RpcError send_OtherException)

lemma logs_send:
  "logs (snd (send_confirmation_email remote em od w)) =
     logs w @
     (case remote \<lparr>email = em, order = od\<rparr> of
        Response r \<Rightarrow>
          [\<lparr>logger_name = ''emailservice-client'', level = INFO, message = ''Request sent.''\<rparr>]
      | Raise (RpcError err) \<Rightarrow>
          [\<lparr>logger_name = ''emailservice-client'', level = ERROR, message = details err\<rparr>,
           \<lparr>logger_name = ''emailservice-client'', level = ERROR,
            message = format_code (PyStr (code_name (code err))) (code_value (code err))\<rparr>]
      | Raise (OtherException x) \<Rightarrow> [])"
  by (cases "remote \<lparr>email = em, order = od\<rparr>" rule: outcome_cases)
     (simp_all add: send_Response send_RpcError send_OtherException)

lemma result_send:
  "fst (send_confirmation_email remote em od w) =
     (case remote \<lparr>email = em, order = od\<rparr> of
        Response r \<Rightarrow> Inr ()
      | Raise (RpcError err) \<Rightarrow> Inr ()
      | Raise (OtherException x) \<Rightarrow> Inl (OtherException x))"
  by (cases "remote \<lparr>email = em, order = od\<rparr>" rule: outcome_cases)
     (simp_all add: send_Response send_RpcError send_OtherException)

text \<open>Closing a channel is what sets its \<open>closed\<close> flag.\<close>

lemma channel_close_closed:
  "c < length (channels w) \<Longrightarrow> closed (channels (channel_close c w) ! c)"
  by (simp add: channel_close_def)

text \<open>The decimal rendering on a few integers, as Python's \<open>str\<close> prints them.\<close>

lemma str_int_examples:
  "str_int 0 = ''0''" "str_int 14 = ''14''" "str_int 1000 = ''1000''" "str_int (- 305) = ''-305''"
  by (simp_all add: str_int_def str_nat.simps digit_char_def)

lemma py_str_examples:
  "py_str (PyStr ''it's'') = ''it's''"
  "py_str (PyTuple []) = ''()''"
  "py_str (PyTuple [PyInt 1]) = ''(1,)''"
  "py_str (PyTuple [PyInt 14, PyStr ''it's'']) = ''(14, \"it's\")''"
  "py_str (PyList [PyNone, PyBool True, PyInt (- 5)]) = ''[None, True, -5]''"
  "py_str (PyDict [(PyStr ''id'', PyStr ''123'')]) = ''{'id': '123'}''"
  by (simp_all add: py_str_def repr_str_def repr_char_def printable_def str_int_def
      str_nat.simps digit_char_def Let_def)

text \<open>
  The line the handler formats from a status code, for each member of the enumeration:
  the name, a comma, a space, and the value as \<open>str\<close> prints a pair.
\<close>

lemma status_line:
  "format_code (PyStr (code_name c)) (code_value c) =
     (case c of
        OK \<Rightarrow> ''OK, (0, 'ok')''
      | CANCELLED \<Rightarrow> ''CANCELLED, (1, 'cancelled')''
      | UNKNOWN \<Rightarrow> ''UNKNOWN, (2, 'unknown')''
      | INVALID_ARGUMENT \<Rightarrow> ''INVALID_ARGUMENT, (3, 'invalid argument')''
      | DEADLINE_EXCEEDED \<Rightarrow> ''DEADLINE_EXCEEDED, (4, 'deadline exceeded')''
      | NOT_FOUND \<Rightarrow> ''NOT_FOUND, (5, 'not found')''
      | ALREADY_EXISTS \<Rightarrow> ''ALREADY_EXISTS, (6, 'already exists')''
      | PERMISSION_DENIED \<Rightarrow> ''PERMISSION_DENIED, (7, 'permission denied')''
      | RESOURCE_EXHAUSTED \<Rightarrow> ''RESOURCE_EXHAUSTED, (8, 'resource exhausted')''
      | FAILED_PRECONDITION \<Rightarrow> ''FAILED_PRECONDITION, (9, 'failed precondition')''
      | ABORTED \<Rightarrow> ''ABORTED, (10, 'aborted')''
      | OUT_OF_RANGE \<Rightarrow> ''OUT_OF_RANGE, (11, 'out of range')''
      | UNIMPLEMENTED \<Rightarrow> ''UNIMPLEMENTED, (12, 'unimplemented')''
      | INTERNAL \<Rightarrow> ''INTERNAL, (13, 'internal')''
      | UNAVAILABLE \<Rightarrow> ''UNAVAILABLE, (14, 'unavailable')''
      | DATA_LOSS \<Rightarrow> ''DATA_LOSS, (15, 'data loss')''
      | UNAUTHENTICATED \<Rightarrow> ''UNAUTHENTICATED, (16, 'unauthenticated')'')"
  by (cases c)
     (simp_all add: format_code_def py_str_def repr_str_def repr_char_def printable_def
        str_int_def str_nat.simps digit_char_def Let_def)

section \<open>The request that is sent\<close>

text \<open>
  C1. For every pair of arguments, one call of \<open>send_confirmation_email\<close> issues
  exactly one remote \<open>SendOrderConfirmation\<close> call, and the request of that call has
  its \<open>email\<close> field equal to the \<open>email\<close> argument and its \<open>order\<close> field equal
  to the \<open>order\<close> argument: nothing is transformed and no default is substituted.
\<close>

theorem send_issues_one_exact_call:
  "rpcs (snd (send_confirmation_email remote em od w)) =
     rpcs w @ [\<lparr>via = length (channels w), rpc_method = ''SendOrderConfirmation'',
                request = \<lparr>email = em, order = od\<rparr>\<rparr>] \<and>
   length (rpcs (snd (send_confirmation_email remote em od w))) = Suc (length (rpcs w)) \<and>
   rpc_method (last (rpcs (snd (send_confirmation_email remote em od w)))) =
     ''SendOrderConfirmation'' \<and>
   email (request (last (rpcs (snd (send_confirmation_email remote em od w))))) = em \<and>
   order (request (last (rpcs (snd (send_confirmation_email remote em od w))))) = od"
  by (simp add: rpcs_send)

section \<open>Logging on success and on failure\<close>

text \<open>
  C2. Whenever the remote call succeeds, the function emits exactly one log record, at
  level INFO with the message \<open>Request sent.\<close>, and no record at level ERROR.
\<close>

theorem success_logs_one_info:
  assumes "remote \<lparr>email = em, order = od\<rparr> = Response r"
  shows "logs (snd (send_confirmation_email remote em od w)) =
           logs w @ [\<lparr>logger_name = ''emailservice-client'', level = INFO,
                      message = ''Request sent.''\<rparr>] \<and>
         filter (\<lambda>l. level l = ERROR)
           (emitted_logs w (snd (send_confirmation_email remote em od w))) = []"
  using assms by (simp add: logs_send emitted_logs_def)

theorem success_logs_one_info_witness:
  "logs (snd (send_confirmation_email (\<lambda>req. Response PyNone) (PyStr ''a@b.com'')
            (PyDict [(PyStr ''id'', PyStr ''123'')])
            \<lparr>channels = [], rpcs = [], logs = []\<rparr>)) =
     [\<lparr>logger_name = ''emailservice-client'', level = INFO, message = ''Request sent.''\<rparr>]"
  using success_logs_one_info [of "\<lambda>req. Response PyNone" "PyStr ''a@b.com''"
      "PyDict [(PyStr ''id'', PyStr ''123'')]" PyNone
      "\<lparr>channels = [], rpcs = [], logs = []\<rparr>"]
  by simp

text \<open>
  C3, as the code has it. Whenever the remote call fails with an RPC error whose detail
  string is \<open>D\<close> and whose status code is the member \<open>c\<close> of \<open>grpc.StatusCode\<close>,
  the function emits exactly two log records, both at level ERROR: first \<open>D\<close>, then the
  member's name, a comma, a space and \<open>str\<close> of the member's value. That value is the
  pair of a number and a text, so the second record reads
  \<open>UNAVAILABLE, (14, 'unavailable')\<close> for the code UNAVAILABLE, and likewise for each
  of the seventeen codes. The function then returns normally.
\<close>

theorem failure_logs_two_errors:
  assumes "remote \<lparr>email = em, order = od\<rparr> = Raise (RpcError \<lparr>details = D, code = c\<rparr>)"
  shows "logs (snd (send_confirmation_email remote em od w)) =
           logs w @
           [\<lparr>logger_name = ''emailservice-client'', level = ERROR, message = D\<rparr>,
            \<lparr>logger_name = ''emailservice-client'', level = ERROR,
             message =
               (case c of
                  OK \<Rightarrow> ''OK, (0, 'ok')''
                | CANCELLED \<Rightarrow> ''CANCELLED, (1, 'cancelled')''
                | UNKNOWN \<Rightarrow> ''UNKNOWN, (2, 'unknown')''
                | INVALID_ARGUMENT \<Rightarrow> ''INVALID_ARGUMENT, (3, 'invalid argument')''
                | DEADLINE_EXCEEDED \<Rightarrow> ''DEADLINE_EXCEEDED, (4, 'deadline exceeded')''
                | NOT_FOUND \<Rightarrow> ''NOT_FOUND, (5, 'not found')''
                | ALREADY_EXISTS \<Rightarrow> ''ALREADY_EXISTS, (6, 'already exists')''
                | PERMISSION_DENIED \<Rightarrow> ''PERMISSION_DENIED, (7, 'permission denied')''
                | RESOURCE_EXHAUSTED \<Rightarrow> ''RESOURCE_EXHAUSTED, (8, 'resource exhausted')''
                | FAILED_PRECONDITION \<Rightarrow> ''FAILED_PRECONDITION, (9, 'failed precondition')''
                | ABORTED \<Rightarrow> ''ABORTED, (10, 'aborted')''
                | OUT_OF_RANGE \<Rightarrow> ''OUT_OF_RANGE, (11, 'out of range')''
                | UNIMPLEMENTED \<Rightarrow> ''UNIMPLEMENTED, (12, 'unimplemented')''
                | INTERNAL \<Rightarrow> ''INTERNAL, (13, 'internal')''
                | UNAVAILABLE \<Rightarrow> ''UNAVAILABLE, (14, 'unavailable')''
                | DATA_LOSS \<Rightarrow> ''DATA_LOSS, (15, 'data loss')''
                | UNAUTHENTICATED \<Rightarrow> ''UNAUTHENTICATED, (16, 'unauthenticated')'')\<rparr>] \<and>
         fst (send_confirmation_email remote em od w) = Inr ()"
proof -
  have "logs (snd (send_confirmation_email remote em od w)) =
          logs w @
          [\<lparr>logger_name = ''emailservice-client'', level = ERROR, message = D\<rparr>,
           \<lparr>logger_name = ''emailservice-client'', level = ERROR,
            message = format_code (PyStr (code_name c)) (code_value c)\<rparr>]"
    using assms by (simp add: logs_send)
  moreover have "fst (send_confirmation_email remote em od w) = Inr ()"
    using assms by (simp add: result_send)
  ultimately show ?thesis
    by (simp add: status_line)
qed

theorem failure_logs_two_errors_witness:
  "logs (snd (send_confirmation_email
            (\<lambda>req. Raise (RpcError \<lparr>details = ''unavailable'', code = UNAVAILABLE\<rparr>))
            (PyStr ''a@b.com'') (PyDict [(PyStr ''id'', PyStr ''123'')])
            \<lparr>channels = [], rpcs = [], logs = []\<rparr>)) =
     [\<lparr>logger_name = ''emailservice-client'', level = ERROR, message = ''unavailable''\<rparr>,
      \<lparr>logger_name = ''emailservice-client'', level = ERROR,
       message = ''UNAVAILABLE, (14, 'unavailable')''\<rparr>] \<and>
   fst (send_confirmation_email
          (\<lambda>req. Raise (RpcError \<lparr>details = ''unavailable'', code = UNAVAILABLE\<rparr>))
          (PyStr ''a@b.com'') (PyDict [(PyStr ''id'', PyStr ''123'')])
          \<lparr>channels = [], rpcs = [], logs = []\<rparr>) = Inr ()"
  using failure_logs_two_errors [of
      "\<lambda>req. Raise (RpcError \<lparr>details = ''unavailable'', code = UNAVAILABLE\<rparr>)"
      "PyStr ''a@b.com''" "PyDict [(PyStr ''id'', PyStr ''123'')]"
      "''unavailable''" UNAVAILABLE "\<lparr>channels = [], rpcs = [], logs = []\<rparr>"]
  by simp

text \<open>
  C3, as the spec words it, fails: with the detail \<open>unavailable\<close> and the code
  UNAVAILABLE, whose number is 14, the second record is
  \<open>UNAVAILABLE, (14, 'unavailable')\<close>, which does not contain \<open>UNAVAILABLE, 14\<close>.
\<close>

theorem failure_second_record_counterexample:
  "message (last (logs (snd (send_confirmation_email remote_unavailable (PyStr ''a@b.com'')
      (PyDict [(PyStr ''id'', PyStr ''123'')]) \<lparr>channels = [], rpcs = [], logs = []\<rparr>)))) =
     ''UNAVAILABLE, (14, 'unavailable')'' \<and>
   \<not> str_contains
     (message (last (logs (snd (send_confirmation_email remote_unavailable (PyStr ''a@b.com'')
        (PyDict [(PyStr ''id'', PyStr ''123'')]) \<lparr>channels = [], rpcs = [], logs = []\<rparr>)))))
     ''UNAVAILABLE, 14''"
proof -
  have "logs (snd (send_confirmation_email remote_unavailable (PyStr ''a@b.com'')
      (PyDict [(PyStr ''id'', PyStr ''123'')]) \<lparr>channels = [], rpcs = [], logs = []\<rparr>)) =
    [\<lparr>logger_name = ''emailservice-client'', level = ERROR, message = ''unavailable''\<rparr>,
     \<lparr>logger_name = ''emailservice-client'', level = ERROR,
      message = format_code (PyStr (code_name UNAVAILABLE)) (code_value UNAVAILABLE)\<rparr>]"
    by (simp add: logs_send remote_unavailable_def)
  then show ?thesis
    by (simp add: status_line [of UNAVAILABLE, simplified])
qed

section \<open>Failures are swallowed\<close>

text \<open>
  C4. Whether the remote call succeeds or fails with an RPC error, the function returns
  the same value (\<open>None\<close>) and no exception leaves it. The failure is caught after
  the one call was issued, logged as two ERROR records (the detail, then the formatted
  code) and discarded: apart from the log, the world after the failure is the world
  after the success, so the caller cannot tell the two apart by the result.
\<close>

theorem failure_not_propagated:
  assumes "remote1 \<lparr>email = em, order = od\<rparr> = Response r"
    and "remote2 \<lparr>email = em, order = od\<rparr> = Raise (RpcError err)"
  shows "fst (send_confirmation_email remote1 em od w) = Inr () \<and>
         fst (send_confirmation_email remote2 em od w) = Inr () \<and>
         fst (send_confirmation_email remote2 em od w) =
           fst (send_confirmation_email remote1 em od w) \<and>
         sent_requests w (snd (send_confirmation_email remote2 em od w)) =
           [\<lparr>email = em, order = od\<rparr>] \<and>
         emitted_logs w (snd (send_confirmation_email remote2 em od w)) =
           [\<lparr>logger_name = ''emailservice-client'', level = ERROR, message = details err\<rparr>,
            \<lparr>logger_name = ''emailservice-client'', level = ERROR,
             message = format_code (PyStr (code_name (code err))) (code_value (code err))\<rparr>] \<and>
         emitted_logs w (snd (send_confirmation_email remote1 em od w)) =
           [\<lparr>logger_name = ''emailservice-client'', level = INFO,
             message = ''Request sent.''\<rparr>] \<and>
         channels (snd (send_confirmation_email remote2 em od w)) =
           channels (snd (send_confirmation_email remote1 em od w)) \<and>
         rpcs (snd (send_confirmation_email remote2 em od w)) =
           rpcs (snd (send_confirmation_email remote1 em od w))"
  using assms
  by (simp add: result_send logs_send rpcs_send channels_send sent_requests_def
      emitted_logs_def)

theorem failure_not_propagated_witness:
  "fst (send_confirmation_email (\<lambda>req. Response (PyStr ''ack'')) (PyStr ''a@b.com'')
          (PyDict [(PyStr ''id'', PyStr ''123'')])
          \<lparr>channels = [], rpcs = [], logs = []\<rparr>) = Inr () \<and>
   fst (send_confirmation_email
          (\<lambda>req. Raise (RpcError \<lparr>details = ''deadline exceeded'',
             code = DEADLINE_EXCEEDED\<rparr>))
          (PyStr ''a@b.com'') (PyDict [(PyStr ''id'', PyStr ''123'')])
          \<lparr>channels = [], rpcs = [], logs = []\<rparr>) = Inr () \<and>
   emitted_logs \<lparr>channels = [], rpcs = [], logs = []\<rparr>
     (snd (send_confirmation_email
          (\<lambda>req. Raise (RpcError \<lparr>details = ''deadline exceeded'',
             code = DEADLINE_EXCEEDED\<rparr>))
          (PyStr ''a@b.com'') (PyDict [(PyStr ''id'', PyStr ''123'')])
          \<lparr>channels = [], rpcs = [], logs = []\<rparr>)) =
     [\<lparr>logger_name = ''emailservice-client'', level = ERROR,
       message = ''deadline exceeded''\<rparr>,
      \<lparr>logger_name = ''emailservice-client'', level = ERROR,
       message = ''DEADLINE_EXCEEDED, (4, 'deadline exceeded')''\<rparr>] \<and>
   sent_requests \<lparr>channels = [], rpcs = [], logs = []\<rparr>
     (snd (send_confirmation_email
          (\<lambda>req. Raise (RpcError \<lparr>details = ''deadline exceeded'',
             code = DEADLINE_EXCEEDED\<rparr>))
          (PyStr ''a@b.com'') (PyDict [(PyStr ''id'', PyStr ''123'')])
          \<lparr>channels = [], rpcs = [], logs = []\<rparr>)) =
     [\<lparr>email = PyStr ''a@b.com'', order = PyDict [(PyStr ''id'', PyStr ''123'')]\<rparr>]"
  using failure_not_propagated [of "\<lambda>req. Response (PyStr ''ack'')" "PyStr ''a@b.com''"
      "PyDict [(PyStr ''id'', PyStr ''123'')]" "PyStr ''ack''"
      "\<lambda>req. Raise (RpcError \<lparr>details = ''deadline exceeded'', code = DEADLINE_EXCEEDED\<rparr>)"
      "\<lparr>details = ''deadline exceeded'', code = DEADLINE_EXCEEDED\<rparr>"
      "\<lparr>channels = [], rpcs = [], logs = []\<rparr>"]
  by (simp add: status_line [of DEADLINE_EXCEEDED, simplified])

section \<open>No local validation\<close>

text \<open>
  C5. For every pair of arguments, absent (\<open>None\<close>) and malformed ones included, the
  function does not reject its input: the remote call is always issued, with the
  arguments as they were given, and the function raises only when the remote call itself
  raised something other than an RPC error. A rejection that the remote service reports
  as an RPC error takes the handled path and the function returns normally.
\<close>

theorem no_local_rejection:
  "length (rpcs (snd (send_confirmation_email remote em od w))) = Suc (length (rpcs w)) \<and>
   sent_requests w (snd (send_confirmation_email remote em od w)) =
     [\<lparr>email = em, order = od\<rparr>] \<and>
   fst (send_confirmation_email remote em od w) =
     (case remote \<lparr>email = em, order = od\<rparr> of
        Response r \<Rightarrow> Inr ()
      | Raise (RpcError err) \<Rightarrow> Inr ()
      | Raise (OtherException x) \<Rightarrow> Inl (OtherException x))"
  by (simp add: rpcs_send result_send sent_requests_def)

theorem no_local_rejection_witness:
  "sent_requests \<lparr>channels = [], rpcs = [], logs = []\<rparr>
     (snd (send_confirmation_email
        (\<lambda>req. if email req = PyNone
           then Raise (RpcError \<lparr>details = ''missing email'', code = INVALID_ARGUMENT\<rparr>)
           else Response PyNone)
        PyNone (PyInt 7) \<lparr>channels = [], rpcs = [], logs = []\<rparr>)) =
     [\<lparr>email = PyNone, order = PyInt 7\<rparr>] \<and>
   fst (send_confirmation_email
        (\<lambda>req. if email req = PyNone
           then Raise (RpcError \<lparr>details = ''missing email'', code = INVALID_ARGUMENT\<rparr>)
           else Response PyNone)
        PyNone (PyInt 7) \<lparr>channels = [], rpcs = [], logs = []\<rparr>) = Inr ()"
  using no_local_rejection [of
      "\<lambda>req. if email req = PyNone
         then Raise (RpcError \<lparr>details = ''missing email'', code = INVALID_ARGUMENT\<rparr>)
         else Response PyNone"
      PyNone "PyInt 7" "\<lparr>channels = [], rpcs = [], logs = []\<rparr>"]
  by simp

section \<open>The channel\<close>

text \<open>
  C6. Every invocation opens exactly one new channel, to the fixed address
  \<open>[::]:8080\<close>, and issues its call on that new channel: never on a channel that
  existed before, so a second invocation does not use the channel of the first.
\<close>

theorem fresh_channel_fixed_target:
  "channels (snd (send_confirmation_email remote em od w)) =
     channels w @ [\<lparr>target = ''[::]:8080'', secure = False, closed = False\<rparr>] \<and>
   map via (rpcs (snd (send_confirmation_email remote em od w))) =
     map via (rpcs w) @ [length (channels w)] \<and>
   via (last (rpcs (snd (send_confirmation_email remote' em' od'
                           (snd (send_confirmation_email remote em od w)))))) =
     Suc (via (last (rpcs (snd (send_confirmation_email remote em od w)))))"
  by (simp add: rpcs_send channels_send)

text \<open>
  C10. The function never closes the channel it opens: on every path (success, handled
  failure, and an exception that escapes) the channel it created is still open when the
  function is left, and the channels that existed before are as they were.
\<close>

theorem channel_left_open:
  "map closed (channels (snd (send_confirmation_email remote em od w))) =
     map closed (channels w) @ [False] \<and>
   closed (channels (snd (send_confirmation_email remote em od w)) ! length (channels w)) =
     False \<and>
   channel_close (length (channels w)) (snd (send_confirmation_email remote em od w)) \<noteq>
     snd (send_confirmation_email remote em od w)"
proof -
  let ?w' = "snd (send_confirmation_email remote em od w)"
  have ch: "channels ?w' =
      channels w @ [\<lparr>target = ''[::]:8080'', secure = False, closed = False\<rparr>]"
    by (rule channels_send)
  have "closed (channels (channel_close (length (channels w)) ?w') ! length (channels w))"
    by (rule channel_close_closed) (simp add: ch)
  moreover have "\<not> closed (channels ?w' ! length (channels w))"
    by (simp add: ch)
  ultimately have "channel_close (length (channels w)) ?w' \<noteq> ?w'"
    by auto
  then show ?thesis
    by (simp add: ch)
qed

section \<open>Independence of invocations\<close>

text \<open>
  C7. What an invocation does (the request it sends, the log records it emits, its
  result) depends only on its own arguments and on the outcome of its own remote call,
  not on the world it starts from: whatever earlier invocations did, the same arguments
  and the same outcome give the same request, the same records and the same result.
\<close>

theorem invocations_independent:
  assumes "remote1 \<lparr>email = em, order = od\<rparr> = remote2 \<lparr>email = em, order = od\<rparr>"
  shows "sent_requests w1 (snd (send_confirmation_email remote1 em od w1)) =
           sent_requests w2 (snd (send_confirmation_email remote2 em od w2)) \<and>
         emitted_logs w1 (snd (send_confirmation_email remote1 em od w1)) =
           emitted_logs w2 (snd (send_confirmation_email remote2 em od w2)) \<and>
         fst (send_confirmation_email remote1 em od w1) =
           fst (send_confirmation_email remote2 em od w2)"
  using assms by (simp add: sent_requests_def emitted_logs_def rpcs_send logs_send result_send)

theorem invocations_independent_witness:
  "emitted_logs \<lparr>channels = [], rpcs = [], logs = []\<rparr>
     (snd (send_confirmation_email (\<lambda>req. Response PyNone) (PyStr ''a@b.com'')
        (PyDict [(PyStr ''id'', PyStr ''123'')]) \<lparr>channels = [], rpcs = [], logs = []\<rparr>)) =
   emitted_logs
     (snd (send_confirmation_email
        (\<lambda>req. Raise (RpcError \<lparr>details = ''unavailable'', code = UNAVAILABLE\<rparr>))
        (PyStr ''x@y.org'') PyNone \<lparr>channels = [], rpcs = [], logs = []\<rparr>))
     (snd (send_confirmation_email (\<lambda>req. Response PyNone) (PyStr ''a@b.com'')
        (PyDict [(PyStr ''id'', PyStr ''123'')])
        (snd (send_confirmation_email
           (\<lambda>req. Raise (RpcError \<lparr>details = ''unavailable'', code = UNAVAILABLE\<rparr>))
           (PyStr ''x@y.org'') PyNone \<lparr>channels = [], rpcs = [], logs = []\<rparr>))))"
  using invocations_independent [of "\<lambda>req. Response PyNone" "PyStr ''a@b.com''"
      "PyDict [(PyStr ''id'', PyStr ''123'')]" "\<lambda>req. Response PyNone"
      "\<lparr>channels = [], rpcs = [], logs = []\<rparr>"
      "snd (send_confirmation_email
         (\<lambda>req. Raise (RpcError \<lparr>details = ''unavailable'', code = UNAVAILABLE\<rparr>))
         (PyStr ''x@y.org'') PyNone \<lparr>channels = [], rpcs = [], logs = []\<rparr>)"]
  by simp

text \<open>
  C8. On success the function does not look at the response: two remote services that
  both answer the request, with any two responses \<open>R1\<close> and \<open>R2\<close>, lead to the same
  result and the same world, log included.
\<close>

theorem response_payload_ignored:
  assumes "remote1 \<lparr>email = em, order = od\<rparr> = Response R1"
    and "remote2 \<lparr>email = em, order = od\<rparr> = Response R2"
  shows "send_confirmation_email remote1 em od w = send_confirmation_email remote2 em od w"
  using assms by (simp add: send_Response)

theorem response_payload_ignored_witness:
  "send_confirmation_email (\<lambda>req. Response PyNone) (PyStr ''a@b.com'')
     (PyDict [(PyStr ''id'', PyStr ''123'')]) \<lparr>channels = [], rpcs = [], logs = []\<rparr> =
   send_confirmation_email (\<lambda>req. Response (PyDict [(PyStr ''status'', PyStr ''queued'')]))
     (PyStr ''a@b.com'') (PyDict [(PyStr ''id'', PyStr ''123'')])
     \<lparr>channels = [], rpcs = [], logs = []\<rparr>"
  using response_payload_ignored [of "\<lambda>req. Response PyNone" "PyStr ''a@b.com''"
      "PyDict [(PyStr ''id'', PyStr ''123'')]" PyNone
      "\<lambda>req. Response (PyDict [(PyStr ''status'', PyStr ''queued'')])"
      "PyDict [(PyStr ''status'', PyStr ''queued'')]"
      "\<lparr>channels = [], rpcs = [], logs = []\<rparr>"]
  by simp

section \<open>The script entry point\<close>

text \<open>
  C9. Run as a script (\<open>__name__\<close> is \<open>__main__\<close>), the module emits exactly one log
  record, at level INFO with the message \<open>Client for email service.\<close>, and does nothing
  else: it opens no channel, issues no remote call, does not depend on the command line
  and ends normally.
\<close>

theorem script_logs_startup_only:
  "module_main ''__main__'' argv w =
     (Inr (),
      w\<lparr>logs := logs w @ [\<lparr>logger_name = ''emailservice-client'', level = INFO,
                         message = ''Client for email service.''\<rparr>]\<rparr>) \<and>
   channels (snd (module_main ''__main__'' argv w)) = channels w \<and>
   rpcs (snd (module_main ''__main__'' argv w)) = rpcs w \<and>
   emitted_logs w (snd (module_main ''__main__'' argv w)) =
     [\<lparr>logger_name = ''emailservice-client'', level = INFO,
       message = ''Client for email service.''\<rparr>]"
  by (simp add: module_main_def logger_info_def logger_def getJSONLogger_def emitted_logs_def)

end
